theory Spec2Isabelle
  imports Main "HOL-Library.Word"
begin

section \<open>Strings\<close>

text \<open>
  The strings that the resolver and the HTTP layer compare, split and concatenate
  (versions, platform keys, path segments, header values) are modelled as
  \<^typ>\<open>string\<close>. The free text of a release, its tag name and body, is modelled as
  the JavaScript string it is, a sequence of UTF-16 code units, because
  \<^verbatim>\<open>String.prototype.trim\<close> depends on white space beyond ASCII.
\<close>

type_synonym utf16 = "16 word list"

text \<open>The code units of an ASCII literal.\<close>

definition ascii :: "string \<Rightarrow> utf16" where
  "ascii s = map of_char s"

text \<open>
  The code units that \<^verbatim>\<open>trim\<close> removes: the white space of ECMAScript (tab,
  vertical tab, form feed, the byte order mark U+FEFF and the space separators of
  Unicode: U+0020, U+00A0, U+1680, U+2000 to U+200A, U+202F, U+205F, U+3000) and its
  line terminators (line feed, carriage return, U+2028, U+2029). Each of them is one
  code unit.
\<close>

definition isWhiteSpace :: "16 word \<Rightarrow> bool" where
  "isWhiteSpace c =
     (c \<in> set [0x0009, 0x000A, 0x000B, 0x000C, 0x000D, 0x0020, 0x00A0, 0x1680,
                0x2000, 0x2001, 0x2002, 0x2003, 0x2004, 0x2005, 0x2006, 0x2007,
                0x2008, 0x2009, 0x200A, 0x2028, 0x2029, 0x202F, 0x205F, 0x3000, 0xFEFF])"

text \<open>Removal of the leading and trailing elements that satisfy \<open>ws\<close>.\<close>

definition trimWith :: "('a \<Rightarrow> bool) \<Rightarrow> 'a list \<Rightarrow> 'a list" where
  "trimWith ws s = rev (dropWhile ws (rev (dropWhile ws s)))"

text \<open>\<^verbatim>\<open>s.trim()\<close>.\<close>

definition trim :: "utf16 \<Rightarrow> utf16" where
  "trim s = trimWith isWhiteSpace s"

text \<open>
  \<^verbatim>\<open>s.trim()\<close> on a header value, whose characters are the code units of the same
  number.
\<close>

definition trimHeader :: "string \<Rightarrow> string" where
  "trimHeader s = trimWith (\<lambda>c. isWhiteSpace (of_char c)) s"

text \<open>\<^verbatim>\<open>s.split(c)\<close> for a one-character separator: never empty, \<^verbatim>\<open>"".split(".")\<close> is \<^verbatim>\<open>[""]\<close>.\<close>

fun split_on :: "char \<Rightarrow> string \<Rightarrow> string list" where
  "split_on c [] = [[]]"
| "split_on c (x # xs) =
     (if x = c then [] # split_on c xs
      else (case split_on c xs of
              [] \<Rightarrow> [[x]]
            | s # ss \<Rightarrow> (x # s) # ss))"

text \<open>\<^verbatim>\<open>xs.join(sep)\<close> on an array of strings.\<close>

fun join :: "string \<Rightarrow> string list \<Rightarrow> string" where
  "join sep [] = []"
| "join sep [x] = x"
| "join sep (x # y # ys) = x @ sep @ join sep (y # ys)"

definition isDigit :: "char \<Rightarrow> bool" where
  "isDigit c = (c \<in> set ''0123456789'')"

definition digitVal :: "char \<Rightarrow> nat" where
  "digitVal c = of_char c - 48"

text \<open>The value of a string of decimal digits, most significant digit first.\<close>

definition digitsVal :: "string \<Rightarrow> nat" where
  "digitsVal s = foldl (\<lambda>n c. 10 * n + digitVal c) 0 s"

section \<open>Version comparison (\<^verbatim>\<open>version.ts\<close>)\<close>

text \<open>
  Modelled from the spec: the module \<^verbatim>\<open>version.ts\<close>, which exports
  \<^verbatim>\<open>isValidVersion\<close> and \<^verbatim>\<open>compareVersions\<close>, is imported by \<^verbatim>\<open>github.ts\<close> and
  \<^verbatim>\<open>server.ts\<close> but is not among the source files. The definitions follow section 4.1
  of the specification: a version is valid iff it is non-empty and every
  \<^verbatim>\<open>.\<close>-delimited segment is a base-10 non-negative integer (leading zeros
  permitted).
\<close>

definition isValidSegment :: "string \<Rightarrow> bool" where
  "isValidSegment s = (s \<noteq> [] \<and> list_all isDigit s)"

text \<open>Modelled from the spec: \<^verbatim>\<open>isValid(v)\<close> of section 4.1.\<close>

definition isValidVersion :: "string \<Rightarrow> bool" where
  "isValidVersion v = (v \<noteq> [] \<and> list_all isValidSegment (split_on (CHR ''.'') v))"

text \<open>
  Modelled from the spec: a segment that is not a number parses as 0 when the caller did
  not validate the version first.
\<close>

definition parseSegment :: "string \<Rightarrow> nat" where
  "parseSegment s = (if isValidSegment s then digitsVal s else 0)"

text \<open>Modelled from the spec: the integer tuple of a dot-separated version string.\<close>

definition versionTuple :: "string \<Rightarrow> nat list" where
  "versionTuple v = map parseSegment (split_on (CHR ''.'') v)"

text \<open>Modelled from the spec: the shorter tuple is padded with trailing zeros.\<close>

definition padTo :: "nat \<Rightarrow> nat list \<Rightarrow> nat list" where
  "padTo n xs = xs @ replicate (n - length xs) 0"

text \<open>Modelled from the spec: lexicographic order on the integer tuples, as -1, 0 or 1.\<close>

fun compareTuples :: "nat list \<Rightarrow> nat list \<Rightarrow> int" where
  "compareTuples (x # xs) (y # ys) =
     (if x < y then - 1 else if y < x then 1 else compareTuples xs ys)"
| "compareTuples _ _ = 0"

text \<open>
  Modelled from the spec: \<^verbatim>\<open>compare(a, b)\<close> of section 4.1, the export
  \<^verbatim>\<open>compareVersions\<close> of the absent \<^verbatim>\<open>version.ts\<close>.
\<close>

definition compareVersions :: "string \<Rightarrow> string \<Rightarrow> int" where
  "compareVersions a b =
     (let ta = versionTuple a; tb = versionTuple b;
          n = max (length ta) (length tb)
      in compareTuples (padTo n ta) (padTo n tb))"

section \<open>Release data (\<^verbatim>\<open>github.ts\<close>)\<close>

text \<open>
  The interfaces \<^verbatim>\<open>VersionNotes\<close>, \<^verbatim>\<open>SimpleRelease\<close>, \<^verbatim>\<open>LatestJson\<close> and
  \<^verbatim>\<open>PlatformUpdate\<close> share their leading fields; they are modelled as one chain of
  record extensions, so that \<open>version\<close>, \<open>notes\<close> and \<open>pub_date\<close> are the same
  selectors on each of them, as the property names are in TypeScript.
  \<^verbatim>\<open>VersionNotes\<close> is declared over the type of its characters: the notes that
  \<^verbatim>\<open>extractVersionNotes\<close> produces are sequences of code units, those that the
  resolver reads are of type \<^typ>\<open>string\<close>.
\<close>

record 'c VersionNotesOf =
  version :: "'c list"
  "notes" :: "'c list"

type_synonym VersionNotes = "char VersionNotesOf"

record SimpleRelease = "char VersionNotesOf" +
  pub_date :: string

text \<open>An entry of \<^verbatim>\<open>LatestJson.platforms\<close>: \<^verbatim>\<open>{ signature: string; url: string }\<close>.\<close>

record PlatformEntry =
  entry_signature :: string
  entry_url :: string

record LatestJson = SimpleRelease +
  platforms :: "string \<rightharpoonup> PlatformEntry"

record PlatformUpdate = SimpleRelease +
  url :: string
  signature :: string

record GitHubAsset =
  asset_name :: utf16
  browser_download_url :: utf16

record GitHubRelease =
  tag_name :: utf16
  body :: "utf16 option"
  published_at :: "utf16 option"
  assets :: "GitHubAsset list"

subsection \<open>\<^verbatim>\<open>aggregateNotes\<close>\<close>

definition newline :: string where
  "newline = [CHR 0x0A]"

text \<open>The predicate of the \<^verbatim>\<open>filter\<close> call in \<^verbatim>\<open>aggregateNotes\<close>.\<close>

definition relevantNote :: "string \<Rightarrow> VersionNotes \<Rightarrow> bool" where
  "relevantNote currentVersion n =
     (isValidVersion (version n) \<and> 0 < compareVersions (version n) currentVersion)"

text \<open>The template literal \<^verbatim>\<open>`## ${n.version}\n${n.notes}`\<close>.\<close>

definition headedSection :: "VersionNotes \<Rightarrow> string" where
  "headedSection n = ''## '' @ version n @ newline @ notes n"

definition aggregateNotes :: "VersionNotes list \<Rightarrow> string \<Rightarrow> string" where
  "aggregateNotes allNotes currentVersion =
     (let relevant = filter (relevantNote currentVersion) allNotes
      in if length relevant = 0 then []
         else if length relevant = 1 then notes (hd relevant)
         else join (newline @ newline) (map headedSection relevant))"

text \<open>
  The aggregation as the specification words it, for comparison with the function above:
  the matching notes are put in ascending version order (by a stable insertion sort
  on \<open>compareVersions\<close>) before they are formatted.
\<close>

fun insertByVersion :: "VersionNotes \<Rightarrow> VersionNotes list \<Rightarrow> VersionNotes list" where
  "insertByVersion n [] = [n]"
| "insertByVersion n (m # ms) =
     (if compareVersions (version n) (version m) < 0 then n # m # ms
      else m # insertByVersion n ms)"

definition aggregateNotes_ascending :: "VersionNotes list \<Rightarrow> string \<Rightarrow> string" where
  "aggregateNotes_ascending allNotes currentVersion =
     (let relevant = foldr insertByVersion (filter (relevantNote currentVersion) allNotes) []
      in if length relevant = 0 then []
         else if length relevant = 1 then notes (hd relevant)
         else join (newline @ newline) (map headedSection relevant))"

subsection \<open>\<^verbatim>\<open>findPlatformUpdate\<close>\<close>

definition platformKey :: "string \<Rightarrow> string \<Rightarrow> string" where
  "platformKey target arch = target @ ''-'' @ arch"

definition findPlatformUpdate ::
  "LatestJson \<Rightarrow> string \<Rightarrow> string \<Rightarrow> string \<Rightarrow> PlatformUpdate option" where
  "findPlatformUpdate latest target arch notes' =
     (case platforms latest (platformKey target arch) of
        None \<Rightarrow> None
      | Some platform \<Rightarrow>
          Some \<lparr> version = version latest,
                 notes = notes',
                 pub_date = pub_date latest,
                 url = entry_url platform,
                 signature = entry_signature platform \<rparr>)"

subsection \<open>\<^verbatim>\<open>stripDownloadSection\<close> and \<^verbatim>\<open>extractVersionNotes\<close>\<close>

text \<open>\<^verbatim>\<open>s.startsWith(needle)\<close>.\<close>

definition startsWith :: "'a list \<Rightarrow> 'a list \<Rightarrow> bool" where
  "startsWith s needle = (take (length needle) s = needle)"

text \<open>\<^verbatim>\<open>s.indexOf(needle)\<close>: the first position at which \<open>needle\<close> occurs, \<open>None\<close> for -1.\<close>

fun indexOf :: "'a list \<Rightarrow> 'a list \<Rightarrow> nat option" where
  "indexOf [] needle = (if needle = [] then Some 0 else None)"
| "indexOf (x # xs) needle =
     (if startsWith (x # xs) needle then Some 0
      else map_option Suc (indexOf xs needle))"

definition stripDownloadSection :: "utf16 \<Rightarrow> utf16" where
  "stripDownloadSection b =
     (case indexOf b (ascii ''## Download'') of
        None \<Rightarrow> trim b
      | Some idx \<Rightarrow> trim (take idx b))"

text \<open>
  The expression \<^verbatim>\<open>r.body ? stripDownloadSection(r.body) : ""\<close>: an absent body and
  the empty string are both falsy.
\<close>

definition releaseNotes :: "GitHubRelease \<Rightarrow> utf16" where
  "releaseNotes r =
     (case body r of
        None \<Rightarrow> []
      | Some b \<Rightarrow> if b \<noteq> [] then stripDownloadSection b else [])"

definition extractVersionNotes ::
  "GitHubRelease list \<Rightarrow> utf16 \<Rightarrow> 16 word VersionNotesOf list" where
  "extractVersionNotes releases tagPrefix =
     filter (\<lambda>n. 0 < length (notes n))
       (map (\<lambda>r. \<lparr> version = drop (length tagPrefix) (tag_name r),
                   notes = releaseNotes r \<rparr>)
            releases)"

section \<open>The HTTP layer (\<^verbatim>\<open>server.ts\<close>)\<close>

record ProductConfig =
  product_id :: string
  displayName :: string
  hostnames :: "string list"
  githubRepo :: string
  tagPrefix :: string
  tauriUpdates :: bool

text \<open>\<^verbatim>\<open>UpdateCheckEvent\<close> of \<^verbatim>\<open>analytics.ts\<close>, one line of the analytics log.\<close>

record UpdateCheckEvent =
  ev_ts :: string
  ev_product :: string
  ev_ip :: string
  ev_target :: string
  ev_arch :: string
  ev_currentVersion :: string
  ev_latestVersion :: string
  ev_updateAvailable :: bool
  ev_userAgent :: string
  ev_cfuId :: string
  ev_checkReason :: string

text \<open>
  What a handler reads of the incoming message: the method, the path name of the parsed
  URL, and the headers it consults (\<open>None\<close> for an absent header).
\<close>

record Request =
  req_method :: string
  req_pathname :: string
  x_forwarded_host :: "string option"
  host_header :: "string option"
  x_forwarded_for :: "string option"
  remoteAddress :: "string option"
  user_agent :: "string option"
  x_cfu_id :: "string option"
  x_check_reason :: "string option"

text \<open>
  The per-product state. The source keeps one \<^verbatim>\<open>cache\<close> field and casts the state to
  \<^verbatim>\<open>TauriProductState\<close> or \<^verbatim>\<open>SimpleProductState\<close>; here \<open>tauriCache\<close> and
  \<open>simpleCache\<close> are what \<^verbatim>\<open>await state.cache.get()\<close> yields under either cast
  (\<open>None\<close> for \<^verbatim>\<open>null\<close>), and \<open>notesStore\<close> is what
  \<^verbatim>\<open>state.notesStore.getAll()\<close> returns.
\<close>

record ProductState =
  st_product :: ProductConfig
  tauriCache :: "LatestJson option"
  simpleCache :: "SimpleRelease option"
  notesStore :: "VersionNotes list"

text \<open>
  The collaborators of the request handler: the product tables of \<^verbatim>\<open>products.ts\<close>,
  the fallback product of \<^verbatim>\<open>config.ts\<close>, the per-product states, the clock reading
  \<^verbatim>\<open>new Date().toISOString()\<close> and the dashboard page of \<^verbatim>\<open>generateStatsHtml\<close>.
\<close>

record Env =
  productByHostname :: "string \<rightharpoonup> ProductConfig"
  productById :: "string \<rightharpoonup> ProductConfig"
  defaultProductId :: string
  productStates :: "string \<rightharpoonup> ProductState"
  clock_iso :: string
  generateStatsHtml :: "string \<Rightarrow> string \<Rightarrow> string"

datatype JsonValue =
    JNull
  | JError string
  | JOk
  | JPlatform PlatformUpdate
  | JRelease SimpleRelease
  | JVersion string string

datatype Body =
    NoBody
  | Json JsonValue
  | ServiceWorkerScript
  | Html string
  | PlainText string

record Response =
  status :: nat
  resp_body :: Body

text \<open>
  The observable calls a handler makes on its collaborators, in order. Writing the
  analytics event is taken to succeed; a file-system failure of the logger is outside
  the model.
\<close>

datatype Effect =
    CacheGet string
  | NotesGetAll string
  | AnalyticsLog UpdateCheckEvent
  | StatsRender string

definition sendJson :: "nat \<Rightarrow> JsonValue \<Rightarrow> Response" where
  "sendJson st data = \<lparr> status = st, resp_body = Json data \<rparr>"

text \<open>\<^verbatim>\<open>h || ""\<close> on an optional header.\<close>

definition orEmpty :: "string option \<Rightarrow> string" where
  "orEmpty h = (case h of None \<Rightarrow> [] | Some s \<Rightarrow> s)"

definition resolveProduct :: "Env \<Rightarrow> Request \<Rightarrow> ProductConfig option" where
  "resolveProduct env req =
     (let hostHeader = (case x_forwarded_host req of
                          Some f \<Rightarrow> f
                        | None \<Rightarrow> orEmpty (host_header req));
          host = hd (split_on (CHR '':'') hostHeader)
      in case productByHostname env host of
           Some p \<Rightarrow> Some p
         | None \<Rightarrow> productById env (defaultProductId env))"

definition getClientIp :: "Request \<Rightarrow> string" where
  "getClientIp req =
     (case x_forwarded_for req of
        Some forwarded \<Rightarrow> trimHeader (hd (split_on (CHR '','') forwarded))
      | None \<Rightarrow>
          (case remoteAddress req of
             None \<Rightarrow> ''unknown''
           | Some a \<Rightarrow> if a \<noteq> [] then a else ''unknown''))"

definition handleTauriUpdateCheck ::
  "Env \<Rightarrow> Request \<Rightarrow> ProductState \<Rightarrow> string \<Rightarrow> string \<Rightarrow> string \<Rightarrow> Response \<times> Effect list" where
  "handleTauriUpdateCheck env req state target arch currentVersion =
     (let pid = product_id (st_product state)
      in case tauriCache state of
           None \<Rightarrow> (sendJson 500 (JError ''Unable to fetch release info''), [CacheGet pid])
         | Some latest \<Rightarrow>
             (let notes' = aggregateNotes (notesStore state) currentVersion;
                  platform = findPlatformUpdate latest target arch notes';
                  updateAvailable =
                    (platform \<noteq> None \<and> 0 < compareVersions (version latest) currentVersion);
                  event = \<lparr> ev_ts = clock_iso env,
                            ev_product = pid,
                            ev_ip = getClientIp req,
                            ev_target = target,
                            ev_arch = arch,
                            ev_currentVersion = currentVersion,
                            ev_latestVersion = version latest,
                            ev_updateAvailable = updateAvailable,
                            ev_userAgent = orEmpty (user_agent req),
                            ev_cfuId = orEmpty (x_cfu_id req),
                            ev_checkReason = orEmpty (x_check_reason req) \<rparr>;
                  effects = [CacheGet pid, NotesGetAll pid, AnalyticsLog event]
              in if \<not> updateAvailable
                 then (\<lparr> status = 204, resp_body = NoBody \<rparr>, effects)
                 else (sendJson 200 (case platform of
                                       None \<Rightarrow> JNull
                                     | Some p \<Rightarrow> JPlatform p),
                       effects)))"

text \<open>
  \<^verbatim>\<open>currentVersion?: string\<close> is \<open>None\<close> when the path has no second segment; the
  test \<^verbatim>\<open>if (currentVersion)\<close> also fails on the empty string.
\<close>

definition truthy :: "string option \<Rightarrow> bool" where
  "truthy v = (case v of None \<Rightarrow> False | Some s \<Rightarrow> s \<noteq> [])"

definition handleVersionCheck ::
  "Env \<Rightarrow> Request \<Rightarrow> ProductState \<Rightarrow> string option \<Rightarrow> Response \<times> Effect list" where
  "handleVersionCheck env req state currentVersion =
     (let pid = product_id (st_product state)
      in case simpleCache state of
           None \<Rightarrow> (sendJson 500 (JError ''Unable to fetch release info''), [CacheGet pid])
         | Some latest \<Rightarrow>
             (if truthy currentVersion
              then
                (let cv = orEmpty currentVersion;
                     updateAvailable = (0 < compareVersions (version latest) cv);
                     event = \<lparr> ev_ts = clock_iso env,
                               ev_product = pid,
                               ev_ip = getClientIp req,
                               ev_target = [],
                               ev_arch = [],
                               ev_currentVersion = cv,
                               ev_latestVersion = version latest,
                               ev_updateAvailable = updateAvailable,
                               ev_userAgent = orEmpty (user_agent req),
                               ev_cfuId = orEmpty (x_cfu_id req),
                               ev_checkReason = orEmpty (x_check_reason req) \<rparr>
                 in if \<not> updateAvailable
                    then (\<lparr> status = 204, resp_body = NoBody \<rparr>,
                          [CacheGet pid, AnalyticsLog event])
                    else (sendJson 200
                            (JRelease \<lparr> version = version latest,
                                        notes = aggregateNotes (notesStore state) cv,
                                        pub_date = pub_date latest \<rparr>),
                          [CacheGet pid, AnalyticsLog event, NotesGetAll pid]))
              else (sendJson 200
                      (JRelease \<lparr> version = version latest,
                                  notes = notes latest,
                                  pub_date = pub_date latest \<rparr>),
                    [CacheGet pid])))"

text \<open>\<^verbatim>\<open>pathname.split("/").filter(Boolean)\<close>.\<close>

definition pathSegments :: "string \<Rightarrow> string list" where
  "pathSegments pathname = filter (\<lambda>s. s \<noteq> []) (split_on (CHR ''/'') pathname)"

text \<open>\<^verbatim>\<open>segments[i]\<close>, \<open>None\<close> for \<^verbatim>\<open>undefined\<close>.\<close>

definition segmentAt :: "string list \<Rightarrow> nat \<Rightarrow> string option" where
  "segmentAt segments i = (if i < length segments then Some (segments ! i) else None)"

text \<open>
  The request listener. The handlers of the model raise no exception, so the
  \<^verbatim>\<open>catch\<close> branches that answer 500 "Internal server error" have no counterpart.
\<close>

definition server :: "Env \<Rightarrow> Request \<Rightarrow> Response \<times> Effect list" where
  "server env req =
     (if req_method req \<noteq> ''GET'' then (\<lparr> status = 405, resp_body = NoBody \<rparr>, [])
      else
        (let segments = pathSegments (req_pathname req)
         in if segmentAt segments 0 = Some ''health'' then (sendJson 200 JOk, [])
            else
              (case resolveProduct env req of
                 None \<Rightarrow> (sendJson 404 (JError ''Unknown product for this hostname''), [])
               | Some product \<Rightarrow>
                   (case productStates env (product_id product) of
                      None \<Rightarrow> (sendJson 500 (JError ''Product state not initialized''), [])
                    | Some state \<Rightarrow>
                        if segmentAt segments 0 = Some ''sw.js''
                        then (\<lparr> status = 200, resp_body = ServiceWorkerScript \<rparr>, [])
                        else if segmentAt segments 0 = Some ''stats''
                        then (\<lparr> status = 200,
                                 resp_body = Html (generateStatsHtml env (product_id product)
                                                     (displayName product)) \<rparr>,
                              [StatsRender (product_id product)])
                        else if segmentAt segments 0 = Some ''tauri'' \<and> length segments = 4
                        then
                          (if \<not> tauriUpdates product
                           then (sendJson 404 (JError ''This product does not use Tauri updates''), [])
                           else
                             (let target = segments ! 1;
                                  arch = segments ! 2;
                                  currentVersion = segments ! 3
                              in if \<not> isValidVersion currentVersion
                                 then (sendJson 400 (JError ''Invalid version format''), [])
                                 else handleTauriUpdateCheck env req state target arch
                                        currentVersion))
                        else if segmentAt segments 0 = Some ''version''
                        then
                          (let currentVersion = segmentAt segments 1
                           in if truthy currentVersion
                                 \<and> \<not> isValidVersion (orEmpty currentVersion)
                              then (sendJson 400 (JError ''Invalid version format''), [])
                              else if tauriUpdates product
                              then
                                (case tauriCache state of
                                   None \<Rightarrow>
                                     (sendJson 500 (JError ''Unable to fetch release info''),
                                      [CacheGet (product_id product)])
                                 | Some latest \<Rightarrow>
                                     (sendJson 200 (JVersion (version latest) (pub_date latest)),
                                      [CacheGet (product_id product)]))
                              else handleVersionCheck env req state currentVersion)
                        else (\<lparr> status = 404, resp_body = PlainText ''Not Found'' \<rparr>, [])))))"

section \<open>The cache (\<^verbatim>\<open>cache.ts\<close>)\<close>

text \<open>
  Modelled from the spec: the class \<^verbatim>\<open>Cache\<close> of \<^verbatim>\<open>cache.ts\<close> is used by
  \<^verbatim>\<open>server.ts\<close> and exercised by \<^verbatim>\<open>cache.test.ts\<close>, but the module is not among the
  source files. The model follows section 4.2 of the specification for one caller at a
  time: \<^verbatim>\<open>get()\<close> runs its refresh to completion, so no refresh is in flight when
  the next call starts. The producer is given by the outcome of each of its
  invocations, numbered from 0, as the counting producers of the tests are.
\<close>

text \<open>Modelled from the spec: a producer invocation returns a value or fails.\<close>

datatype 'a ProducerResult = Resolves 'a | Rejects string

text \<open>Modelled from the spec: \<^verbatim>\<open>CacheEntry<T>\<close> of section 3.\<close>

record 'a CacheEntry =
  entry_value :: 'a
  fetchedAt :: int

text \<open>
  Modelled from the spec: the state of one cache, with the snapshot last written, the
  failures logged so far and the number of producer invocations made.
\<close>

record 'a Cache =
  entry :: "'a CacheEntry option"
  ttlMs :: int
  persisted :: "'a option"
  console_errors :: "string list"
  producer_calls :: nat

text \<open>
  Modelled from the spec: what the caller of \<^verbatim>\<open>get()\<close> observes, a value or
  \<^verbatim>\<open>null\<close>, or an exception.
\<close>

datatype 'a GetResult = Returns "'a option" | Throws string

text \<open>Modelled from the spec: step 1, an entry exists and \<^verbatim>\<open>now - entry.fetchedAt < ttlMs\<close>.\<close>

definition isFresh :: "'a Cache \<Rightarrow> int \<Rightarrow> bool" where
  "isFresh c now =
     (case entry c of
        None \<Rightarrow> False
      | Some e \<Rightarrow> now - fetchedAt e < ttlMs c)"

text \<open>
  Modelled from the spec: steps 1, 3 and 4 of \<^verbatim>\<open>get()\<close>. A successful refresh replaces
  the entry and writes the snapshot; a failed one is logged, leaves the entry as it
  was, and yields the previous value or \<^verbatim>\<open>null\<close>.
\<close>

definition get :: "(nat \<Rightarrow> 'a ProducerResult) \<Rightarrow> int \<Rightarrow> 'a Cache \<Rightarrow> 'a GetResult \<times> 'a Cache" where
  "get producer now c =
     (if isFresh c now
      then (Returns (map_option entry_value (entry c)), c)
      else
        (case producer (producer_calls c) of
           Resolves v \<Rightarrow>
             (Returns (Some v),
              c\<lparr> entry := Some \<lparr> entry_value = v, fetchedAt = now \<rparr>,
                 persisted := Some v,
                 producer_calls := Suc (producer_calls c) \<rparr>)
         | Rejects err \<Rightarrow>
             (Returns (map_option entry_value (entry c)),
              c\<lparr> console_errors := console_errors c @ [err],
                 producer_calls := Suc (producer_calls c) \<rparr>)))"

text \<open>Modelled from the spec: \<^verbatim>\<open>invalidate()\<close> clears the entry.\<close>

definition invalidate :: "'a Cache \<Rightarrow> 'a Cache" where
  "invalidate c = c\<lparr> entry := None \<rparr>"

text \<open>Modelled from the spec: \<^verbatim>\<open>new Cache(producer, ttlMs)\<close>, an empty cache.\<close>

definition newCache :: "int \<Rightarrow> 'a Cache" where
  "newCache ttl =
     \<lparr> entry = None, ttlMs = ttl, persisted = None, console_errors = [],
       producer_calls = 0 \<rparr>"

section \<open>Fixtures of the test suite\<close>

text \<open>\<^verbatim>\<open>MOCK_TAURI_RESULT\<close> and \<^verbatim>\<open>MOCK_SIMPLE_RESULT\<close> of \<^verbatim>\<open>server.test.ts\<close>.\<close>

definition MOCK_TAURI_latest :: LatestJson where
  "MOCK_TAURI_latest =
     \<lparr> version = ''0.1.21'',
       notes = ''- Remember window position across restarts'',
       pub_date = ''2026-02-11T07:33:31.665Z'',
       platforms =
         [''darwin-aarch64'' \<mapsto>
            \<lparr> entry_signature = ''sig-darwin-aarch64'',
              entry_url = ''https://github.com/example/releases/download/v0.1.21/App_aarch64.app.tar.gz'' \<rparr>,
          ''windows-x86_64'' \<mapsto>
            \<lparr> entry_signature = ''sig-windows-x86_64'',
              entry_url = ''https://github.com/example/releases/download/v0.1.21/App_0.1.21_x64.msi'' \<rparr>,
          ''linux-x86_64'' \<mapsto>
            \<lparr> entry_signature = ''sig-linux-x86_64'',
              entry_url = ''https://github.com/example/releases/download/v0.1.21/App_0.1.21_amd64.AppImage'' \<rparr>] \<rparr>"

definition MOCK_TAURI_freshNotes :: "VersionNotes list" where
  "MOCK_TAURI_freshNotes =
     [\<lparr> version = ''0.1.21'', notes = ''- Remember window position across restarts'' \<rparr>,
      \<lparr> version = ''0.1.20'', notes = ''- Add magnet/torrent routing'' @ newline @ ''- Launch desktop app from extension'' \<rparr>,
      \<lparr> version = ''0.1.19'', notes = ''- Add profile picker UI'' \<rparr>,
      \<lparr> version = ''0.1.18'', notes = ''- Add profile system'' \<rparr>]"

definition MOCK_SIMPLE_latest :: SimpleRelease where
  "MOCK_SIMPLE_latest =
     \<lparr> version = ''0.4.6'', notes = ''- New feature'', pub_date = ''2026-02-28T00:00:00.000Z'' \<rparr>"

definition MOCK_SIMPLE_freshNotes :: "VersionNotes list" where
  "MOCK_SIMPLE_freshNotes =
     [\<lparr> version = ''0.4.6'', notes = ''- New feature'' \<rparr>,
      \<lparr> version = ''0.4.5'', notes = ''- Bug fix'' \<rparr>]"

text \<open>The two products of the mocked \<^verbatim>\<open>products.ts\<close> and their states.\<close>

definition test_tauri :: ProductConfig where
  "test_tauri =
     \<lparr> product_id = ''test-tauri'', displayName = ''Test Tauri App'',
       hostnames = [''tauri.test''], githubRepo = ''test/tauri'', tagPrefix = ''v'',
       tauriUpdates = True \<rparr>"

definition test_simple :: ProductConfig where
  "test_simple =
     \<lparr> product_id = ''test-simple'', displayName = ''Test Simple App'',
       hostnames = [''simple.test''], githubRepo = ''test/simple'', tagPrefix = ''v'',
       tauriUpdates = False \<rparr>"

definition test_tauri_state :: ProductState where
  "test_tauri_state =
     \<lparr> st_product = test_tauri, tauriCache = Some MOCK_TAURI_latest,
       simpleCache = None, notesStore = MOCK_TAURI_freshNotes \<rparr>"

definition test_simple_state :: ProductState where
  "test_simple_state =
     \<lparr> st_product = test_simple, tauriCache = None,
       simpleCache = Some MOCK_SIMPLE_latest, notesStore = MOCK_SIMPLE_freshNotes \<rparr>"

definition test_env :: Env where
  "test_env =
     \<lparr> productByHostname = [''tauri.test'' \<mapsto> test_tauri, ''simple.test'' \<mapsto> test_simple],
       productById = [''test-tauri'' \<mapsto> test_tauri, ''test-simple'' \<mapsto> test_simple],
       defaultProductId = ''test-tauri'',
       productStates = [''test-tauri'' \<mapsto> test_tauri_state,
                        ''test-simple'' \<mapsto> test_simple_state],
       clock_iso = ''2026-03-01T00:00:00.000Z'',
       generateStatsHtml = (\<lambda>pid name. ''<html><body><p>No data yet.</p></body></html>'') \<rparr>"

text \<open>A \<^verbatim>\<open>GET\<close> request for a path with the \<^verbatim>\<open>X-Forwarded-Host\<close> header of the tests.\<close>

definition test_request :: "string \<Rightarrow> string \<Rightarrow> Request" where
  "test_request host pathname =
     \<lparr> req_method = ''GET'', req_pathname = pathname, x_forwarded_host = Some host,
       host_header = Some ''127.0.0.1:3100'', x_forwarded_for = None,
       remoteAddress = Some ''127.0.0.1'', user_agent = Some ''node'',
       x_cfu_id = None, x_check_reason = None \<rparr>"

text \<open>
  The producer of the test "returns stale data on fetch error": its second invocation
  throws, every other one yields its call number.
\<close>

definition failing_second :: "nat \<Rightarrow> nat ProducerResult" where
  "failing_second k = (if Suc k = 2 then Rejects ''fail'' else Resolves (Suc k))"

text \<open>The producer of the test "returns null when first fetch fails".\<close>

definition always_failing :: "nat \<Rightarrow> nat ProducerResult" where
  "always_failing k = Rejects ''fail''"

text \<open>
  Six releases as the release API lists them, newest first: a body with the section
  that CI appends, no body, a body that is nothing but white space and that section, a
  body that is one no-break space, a body wrapped in white space beyond ASCII, and a
  plain body.
\<close>

definition sample_releases :: "GitHubRelease list" where
  "sample_releases =
     [\<lparr> tag_name = ascii ''v0.1.21'',
        body = Some (ascii ''- Remember window position across restarts'' @ [0x0A, 0x0A]
                     @ ascii ''## Download'' @ [0x0A] @ ascii ''App_aarch64.app.tar.gz''),
        published_at = Some (ascii ''2026-02-11T07:33:31Z''), assets = [] \<rparr>,
      \<lparr> tag_name = ascii ''v0.1.20'', body = None,
        published_at = Some (ascii ''2026-02-01T00:00:00Z''), assets = [] \<rparr>,
      \<lparr> tag_name = ascii ''v0.1.19'',
        body = Some (ascii ''  '' @ [0x0A] @ ascii ''## Download'' @ [0x0A] @ ascii ''App.msi''),
        published_at = None, assets = [] \<rparr>,
      \<lparr> tag_name = ascii ''v0.1.18-rc'', body = Some [0x00A0],
        published_at = None, assets = [] \<rparr>,
      \<lparr> tag_name = ascii ''v0.1.18'',
        body = Some ([0xFEFF, 0x2003] @ ascii ''- Add profile system'' @ [0x00A0, 0x2028]),
        published_at = None, assets = [] \<rparr>,
      \<lparr> tag_name = ascii ''v0.1.17'', body = Some (ascii ''- First release''),
        published_at = None, assets = [] \<rparr>]"

section \<open>Properties of the update resolver\<close>

lemmas version_eval =
  isValidVersion_def isValidSegment_def isDigit_def compareVersions_def versionTuple_def
  parseSegment_def digitsVal_def digitVal_def padTo_def

lemma relevantNote_eq:
  "relevantNote currentVersion =
     (\<lambda>n. isValidVersion (version n) \<and> 0 < compareVersions (version n) currentVersion)"
  by (rule ext) (simp add: relevantNote_def)

lemma headedSection_eq: "headedSection = (\<lambda>n. ''## '' @ version n @ newline @ notes n)"
  by (rule ext) (simp add: headedSection_def)


subsection \<open>\<^verbatim>\<open>findPlatformUpdate\<close>\<close>

text \<open>
  Claim C5. \<^verbatim>\<open>findPlatformUpdate\<close> returns \<^verbatim>\<open>null\<close> if and only if the key
  \<^verbatim>\<open>"{target}-{arch}"\<close> is absent from \<^verbatim>\<open>latest.platforms\<close>; otherwise the result
  carries the version and publication date of the manifest, the URL and signature of
  the entry found, and the notes the caller passed.
\<close>

theorem findPlatformUpdate_null_iff_key_absent:
  "(findPlatformUpdate latest target arch n = None
      \<longleftrightarrow> platforms latest (target @ ''-'' @ arch) = None)
   \<and> (\<forall>p. platforms latest (target @ ''-'' @ arch) = Some p \<longrightarrow>
          findPlatformUpdate latest target arch n =
            Some \<lparr> version = version latest, notes = n, pub_date = pub_date latest,
                   url = entry_url p, signature = entry_signature p \<rparr>)"
  by (simp add: findPlatformUpdate_def platformKey_def split: option.splits)

theorem findPlatformUpdate_null_iff_key_absent_witness:
  "findPlatformUpdate MOCK_TAURI_latest ''freebsd'' ''aarch64'' ''n'' = None
   \<and> findPlatformUpdate MOCK_TAURI_latest ''darwin'' ''aarch64'' ''n'' =
       Some \<lparr> version = ''0.1.21'', notes = ''n'', pub_date = ''2026-02-11T07:33:31.665Z'',
              url = ''https://github.com/example/releases/download/v0.1.21/App_aarch64.app.tar.gz'',
              signature = ''sig-darwin-aarch64'' \<rparr>"
  using findPlatformUpdate_null_iff_key_absent
          [of MOCK_TAURI_latest "''freebsd''" "''aarch64''" "''n''"]
        findPlatformUpdate_null_iff_key_absent
          [of MOCK_TAURI_latest "''darwin''" "''aarch64''" "''n''"]
  by (simp add: MOCK_TAURI_latest_def)

text \<open>
  Claim C10. Two manifests that agree on everything but their own \<open>notes\<close> field give
  the same result for every target, architecture and notes argument, and the notes of
  a resolved update are the argument.
\<close>

theorem findPlatformUpdate_ignores_manifest_notes:
  assumes "version l1 = version l2" and "pub_date l1 = pub_date l2"
    and "platforms l1 = platforms l2"
  shows "findPlatformUpdate l1 target arch n = findPlatformUpdate l2 target arch n
         \<and> (\<forall>u. findPlatformUpdate l1 target arch n = Some u \<longrightarrow> notes u = n)"
  using assms by (auto simp add: findPlatformUpdate_def split: option.splits)

theorem findPlatformUpdate_ignores_manifest_notes_witness:
  "findPlatformUpdate MOCK_TAURI_latest ''darwin'' ''aarch64'' ''caller notes'' =
     findPlatformUpdate (MOCK_TAURI_latest \<lparr> notes := ''other notes'' \<rparr>)
       ''darwin'' ''aarch64'' ''caller notes''
   \<and> map_option notes
         (findPlatformUpdate MOCK_TAURI_latest ''darwin'' ''aarch64'' ''caller notes'')
       = Some ''caller notes''"
  using findPlatformUpdate_ignores_manifest_notes
          [of MOCK_TAURI_latest "MOCK_TAURI_latest \<lparr> notes := ''other notes'' \<rparr>"
              "''darwin''" "''aarch64''" "''caller notes''"]
  by (simp add: MOCK_TAURI_latest_def findPlatformUpdate_def platformKey_def)

subsection \<open>\<^verbatim>\<open>aggregateNotes\<close>\<close>



text \<open>
  Claim C1, as the code has it. When more than one note has a valid version strictly
  newer than \<open>currentVersion\<close>, the result is the sections \<^verbatim>\<open>"## {version}\n{notes}"\<close>
  of those notes joined by a blank line, in the order in which the notes occur in the
  input list: \<^verbatim>\<open>aggregateNotes\<close> filters and formats, it does not sort.
\<close>

theorem aggregateNotes_sections_in_input_order:
  assumes "1 < length (filter (\<lambda>n. isValidVersion (version n)
                                    \<and> 0 < compareVersions (version n) currentVersion) allNotes)"
  shows "aggregateNotes allNotes currentVersion =
           join (newline @ newline)
             (map (\<lambda>n. ''## '' @ version n @ newline @ notes n)
                (filter (\<lambda>n. isValidVersion (version n)
                              \<and> 0 < compareVersions (version n) currentVersion) allNotes))"
  using assms
  by (simp add: aggregateNotes_def Let_def relevantNote_eq headedSection_eq)

theorem aggregateNotes_sections_in_input_order_witness:
  "aggregateNotes MOCK_TAURI_freshNotes ''0.1.18'' =
     ''## 0.1.21'' @ newline @ ''- Remember window position across restarts'' @ newline @ newline
     @ ''## 0.1.20'' @ newline @ ''- Add magnet/torrent routing'' @ newline
     @ ''- Launch desktop app from extension'' @ newline @ newline
     @ ''## 0.1.19'' @ newline @ ''- Add profile picker UI''"
  using aggregateNotes_sections_in_input_order [of "''0.1.18''" MOCK_TAURI_freshNotes]
  by (simp add: MOCK_TAURI_freshNotes_def version_eval newline_def)

text \<open>
  Claim C1, as stated, fails on the release list of the test suite, which is in the
  newest-first order of the release API: the sections come out newest first, where the
  ascending aggregation has them oldest first.
\<close>

theorem aggregateNotes_ascending_counterexample:
  "aggregateNotes MOCK_TAURI_freshNotes ''0.1.18'' =
     ''## 0.1.21'' @ newline @ ''- Remember window position across restarts'' @ newline @ newline
     @ ''## 0.1.20'' @ newline @ ''- Add magnet/torrent routing'' @ newline
     @ ''- Launch desktop app from extension'' @ newline @ newline
     @ ''## 0.1.19'' @ newline @ ''- Add profile picker UI''
   \<and> aggregateNotes_ascending MOCK_TAURI_freshNotes ''0.1.18'' =
     ''## 0.1.19'' @ newline @ ''- Add profile picker UI'' @ newline @ newline
     @ ''## 0.1.20'' @ newline @ ''- Add magnet/torrent routing'' @ newline
     @ ''- Launch desktop app from extension'' @ newline @ newline
     @ ''## 0.1.21'' @ newline @ ''- Remember window position across restarts''
   \<and> aggregateNotes MOCK_TAURI_freshNotes ''0.1.18''
       \<noteq> aggregateNotes_ascending MOCK_TAURI_freshNotes ''0.1.18''"
  by (simp add: aggregateNotes_def aggregateNotes_ascending_def relevantNote_def
        headedSection_def MOCK_TAURI_freshNotes_def version_eval newline_def)

section \<open>Properties of the HTTP layer\<close>

subsection \<open>The update-available decision\<close>

text \<open>
  Claim C2. For a Tauri update check against a cached latest release, the decision is
  true if and only if \<^verbatim>\<open>findPlatformUpdate\<close> found an artifact and
  \<^verbatim>\<open>compare(latest.version, currentVersion) > 0\<close>; this is the value written to the
  analytics log. When it is false the response is 204 without a body, when it is true
  the response is 200 with the resolved update.
\<close>

theorem tauri_update_available_decision:
  assumes "tauriCache state = Some latest"
  shows
   "(findPlatformUpdate latest target arch (aggregateNotes (notesStore state) currentVersion) = None
       \<or> \<not> 0 < compareVersions (version latest) currentVersion
     \<longrightarrow> fst (handleTauriUpdateCheck env req state target arch currentVersion)
           = \<lparr> status = 204, resp_body = NoBody \<rparr>)
    \<and> (\<forall>p. findPlatformUpdate latest target arch
                (aggregateNotes (notesStore state) currentVersion) = Some p
             \<and> 0 < compareVersions (version latest) currentVersion
           \<longrightarrow> fst (handleTauriUpdateCheck env req state target arch currentVersion)
                 = \<lparr> status = 200, resp_body = Json (JPlatform p) \<rparr>)
    \<and> (\<exists>event. AnalyticsLog event
                   \<in> set (snd (handleTauriUpdateCheck env req state target arch currentVersion))
          \<and> ev_updateAvailable event =
              (findPlatformUpdate latest target arch
                 (aggregateNotes (notesStore state) currentVersion) \<noteq> None
               \<and> 0 < compareVersions (version latest) currentVersion))"
  using assms
  by (auto simp add: handleTauriUpdateCheck_def Let_def sendJson_def split: option.splits)

theorem tauri_update_available_decision_witness:
  "fst (handleTauriUpdateCheck test_env
          (test_request ''tauri.test'' ''/tauri/darwin/aarch64/0.1.20'')
          test_tauri_state ''darwin'' ''aarch64'' ''0.1.20'')
     = \<lparr> status = 200,
         resp_body = Json (JPlatform
           \<lparr> version = ''0.1.21'', notes = ''- Remember window position across restarts'',
             pub_date = ''2026-02-11T07:33:31.665Z'',
             url = ''https://github.com/example/releases/download/v0.1.21/App_aarch64.app.tar.gz'',
             signature = ''sig-darwin-aarch64'' \<rparr>) \<rparr>
   \<and> fst (handleTauriUpdateCheck test_env
          (test_request ''tauri.test'' ''/tauri/darwin/aarch64/0.1.21'')
          test_tauri_state ''darwin'' ''aarch64'' ''0.1.21'')
     = \<lparr> status = 204, resp_body = NoBody \<rparr>
   \<and> fst (handleTauriUpdateCheck test_env
          (test_request ''tauri.test'' ''/tauri/freebsd/aarch64/0.1.0'')
          test_tauri_state ''freebsd'' ''aarch64'' ''0.1.0'')
     = \<lparr> status = 204, resp_body = NoBody \<rparr>"
proof -
  have cached: "tauriCache test_tauri_state = Some MOCK_TAURI_latest"
    by (simp add: test_tauri_state_def)
  have found: "findPlatformUpdate MOCK_TAURI_latest ''darwin'' ''aarch64''
                 (aggregateNotes (notesStore test_tauri_state) ''0.1.20'')
     = Some \<lparr> version = ''0.1.21'', notes = ''- Remember window position across restarts'',
             pub_date = ''2026-02-11T07:33:31.665Z'',
             url = ''https://github.com/example/releases/download/v0.1.21/App_aarch64.app.tar.gz'',
             signature = ''sig-darwin-aarch64'' \<rparr>"
    by (simp add: findPlatformUpdate_def platformKey_def MOCK_TAURI_latest_def
          test_tauri_state_def aggregateNotes_def relevantNote_def MOCK_TAURI_freshNotes_def
          version_eval)
  have newer: "0 < compareVersions (version MOCK_TAURI_latest) ''0.1.20''"
    by (simp add: MOCK_TAURI_latest_def version_eval)
  have same: "\<not> 0 < compareVersions (version MOCK_TAURI_latest) ''0.1.21''"
    by (simp add: MOCK_TAURI_latest_def version_eval)
  have absent: "findPlatformUpdate MOCK_TAURI_latest ''freebsd'' ''aarch64''
                 (aggregateNotes (notesStore test_tauri_state) ''0.1.0'') = None"
    by (simp add: findPlatformUpdate_def platformKey_def MOCK_TAURI_latest_def)
  show ?thesis
    using tauri_update_available_decision [OF cached, of "''darwin''" "''aarch64''" "''0.1.20''"]
          tauri_update_available_decision [OF cached, of "''darwin''" "''aarch64''" "''0.1.21''"]
          tauri_update_available_decision [OF cached, of "''freebsd''" "''aarch64''" "''0.1.0''"]
          found newer same absent
    by blast
qed

text \<open>
  Claim C3. For a version check of a simple product that supplies a current version,
  the decision is \<^verbatim>\<open>compare(latest.version, currentVersion) > 0\<close> alone. When it is
  false the response is 204 without a body, when it is true the response is 200 with
  the latest version, the aggregated notes and the publication date.
\<close>

theorem simple_update_available_decision:
  assumes "simpleCache state = Some latest" and "currentVersion \<noteq> []"
  shows
   "(\<not> 0 < compareVersions (version latest) currentVersion
     \<longrightarrow> fst (handleVersionCheck env req state (Some currentVersion))
           = \<lparr> status = 204, resp_body = NoBody \<rparr>)
    \<and> (0 < compareVersions (version latest) currentVersion
       \<longrightarrow> fst (handleVersionCheck env req state (Some currentVersion))
             = \<lparr> status = 200,
                 resp_body = Json (JRelease
                   \<lparr> version = version latest,
                     notes = aggregateNotes (notesStore state) currentVersion,
                     pub_date = pub_date latest \<rparr>) \<rparr>)
    \<and> (\<exists>event. AnalyticsLog event
                   \<in> set (snd (handleVersionCheck env req state (Some currentVersion)))
          \<and> ev_updateAvailable event = (0 < compareVersions (version latest) currentVersion))"
  using assms
  by (auto simp add: handleVersionCheck_def Let_def sendJson_def truthy_def orEmpty_def
        split: option.splits)

theorem simple_update_available_decision_witness:
  "fst (handleVersionCheck test_env (test_request ''simple.test'' ''/version/0.4.5'')
         test_simple_state (Some ''0.4.5''))
     = \<lparr> status = 200,
         resp_body = Json (JRelease
           \<lparr> version = ''0.4.6'', notes = ''- New feature'',
             pub_date = ''2026-02-28T00:00:00.000Z'' \<rparr>) \<rparr>
   \<and> fst (handleVersionCheck test_env (test_request ''simple.test'' ''/version/0.4.6'')
         test_simple_state (Some ''0.4.6''))
     = \<lparr> status = 204, resp_body = NoBody \<rparr>"
proof -
  have cached: "simpleCache test_simple_state = Some MOCK_SIMPLE_latest"
    by (simp add: test_simple_state_def)
  have newer: "0 < compareVersions (version MOCK_SIMPLE_latest) ''0.4.5''"
    by (simp add: MOCK_SIMPLE_latest_def version_eval)
  have same: "\<not> 0 < compareVersions (version MOCK_SIMPLE_latest) ''0.4.6''"
    by (simp add: MOCK_SIMPLE_latest_def version_eval)
  have agg: "aggregateNotes (notesStore test_simple_state) ''0.4.5'' = ''- New feature''"
    by (simp add: test_simple_state_def aggregateNotes_def relevantNote_def
          MOCK_SIMPLE_freshNotes_def version_eval)
  have payload: "version MOCK_SIMPLE_latest = ''0.4.6''"
     "pub_date MOCK_SIMPLE_latest = ''2026-02-28T00:00:00.000Z''"
    by (simp_all add: MOCK_SIMPLE_latest_def)
  show ?thesis
    using simple_update_available_decision [OF cached, of "''0.4.5''"]
          simple_update_available_decision [OF cached, of "''0.4.6''"]
          newer same agg payload
    by simp
qed

subsection \<open>Rejection of an invalid client version\<close>

lemma pathSegments_nonempty: "s \<in> set (pathSegments p) \<Longrightarrow> s \<noteq> []"
  by (simp add: pathSegments_def)

lemma server_tauri_route:
  assumes "pathSegments (req_pathname req) = [''tauri'', target, arch, cv]"
    and "\<not> isValidVersion cv"
  shows "snd (server env req) = []"
    and "status (fst (server env req)) \<in> {400, 404, 405, 500}"
    and "req_method req = ''GET'' \<Longrightarrow> resolveProduct env req = Some product \<Longrightarrow>
         productStates env (product_id product) = Some state \<Longrightarrow> tauriUpdates product \<Longrightarrow>
         fst (server env req)
           = \<lparr> status = 400, resp_body = Json (JError ''Invalid version format'') \<rparr>"
    and "req_method req = ''GET'' \<Longrightarrow> resolveProduct env req = Some product \<Longrightarrow>
         productStates env (product_id product) = Some state \<Longrightarrow> \<not> tauriUpdates product \<Longrightarrow>
         fst (server env req)
           = \<lparr> status = 404,
               resp_body = Json (JError ''This product does not use Tauri updates'') \<rparr>"
  using assms
  by (simp_all add: server_def Let_def segmentAt_def sendJson_def split: option.splits)

lemma server_version_route:
  assumes "pathSegments (req_pathname req) = ''version'' # cv # rest"
    and "\<not> isValidVersion cv"
  shows "snd (server env req) = []"
    and "status (fst (server env req)) \<in> {400, 404, 405, 500}"
    and "req_method req = ''GET'' \<Longrightarrow> resolveProduct env req = Some product \<Longrightarrow>
         productStates env (product_id product) = Some state \<Longrightarrow>
         fst (server env req)
           = \<lparr> status = 400, resp_body = Json (JError ''Invalid version format'') \<rparr>"
proof -
  have "cv \<in> set (pathSegments (req_pathname req))"
    using assms(1) by simp
  then have ne: "cv \<noteq> []"
    by (rule pathSegments_nonempty)
  show "snd (server env req) = []"
    using assms ne
    by (simp add: server_def Let_def segmentAt_def sendJson_def truthy_def orEmpty_def
          split: option.splits)
  show "status (fst (server env req)) \<in> {400, 404, 405, 500}"
    using assms ne
    by (simp add: server_def Let_def segmentAt_def sendJson_def truthy_def orEmpty_def
          split: option.splits)
  show "req_method req = ''GET'' \<Longrightarrow> resolveProduct env req = Some product \<Longrightarrow>
         productStates env (product_id product) = Some state \<Longrightarrow>
         fst (server env req)
           = \<lparr> status = 400, resp_body = Json (JError ''Invalid version format'') \<rparr>"
    using assms ne
    by (simp add: server_def Let_def segmentAt_def sendJson_def truthy_def orEmpty_def
          split: option.splits)
qed

lemma test_tauri_resolved:
  "resolveProduct test_env (test_request ''tauri.test'' p) = Some test_tauri"
  "productStates test_env (product_id test_tauri) = Some test_tauri_state"
  "tauriUpdates test_tauri"
  by (simp_all add: resolveProduct_def test_env_def test_request_def test_tauri_def)

lemma test_simple_resolved:
  "resolveProduct test_env (test_request ''simple.test'' p) = Some test_simple"
  "productStates test_env (product_id test_simple) = Some test_simple_state"
  "\<not> tauriUpdates test_simple"
  by (simp_all add: resolveProduct_def test_env_def test_request_def test_simple_def)

lemma test_request_fields:
  "req_method (test_request h p) = ''GET''"
  "req_pathname (test_request h p) = p"
  by (simp_all add: test_request_def)

text \<open>
  Claim C7, as the code has it. Let the path of a request be
  \<^verbatim>\<open>/tauri/:target/:arch/:currentVersion\<close> or \<^verbatim>\<open>/version/:currentVersion\<close> with a
  current version that fails \<^verbatim>\<open>isValid\<close>. Then the server calls none of its
  collaborators: no cache is read, no notes are fetched and no analytics event is
  written, so neither handler runs and the invalid version reaches no comparison. If
  the request is a \<^verbatim>\<open>GET\<close> whose host resolves to a product with a state, the answer
  is 400 "Invalid version format", except on the \<^verbatim>\<open>/tauri\<close> route of a product without
  Tauri updates, which is answered 404 before the version is looked at. The other
  requests are answered 404, 405 or 500 by the guards that precede the routes.
\<close>

theorem invalid_version_never_reaches_resolver:
  assumes "\<not> isValidVersion cv"
    and "pathSegments (req_pathname req) = [''tauri'', target, arch, cv]
         \<or> (\<exists>rest. pathSegments (req_pathname req) = ''version'' # cv # rest)"
  shows "snd (server env req) = []
    \<and> status (fst (server env req)) \<in> {400, 404, 405, 500}
    \<and> (req_method req = ''GET'' \<and> resolveProduct env req = Some product
         \<and> productStates env (product_id product) = Some state
         \<and> (hd (pathSegments (req_pathname req)) = ''tauri'' \<longrightarrow> tauriUpdates product)
       \<longrightarrow> fst (server env req)
             = \<lparr> status = 400, resp_body = Json (JError ''Invalid version format'') \<rparr>)
    \<and> (req_method req = ''GET'' \<and> resolveProduct env req = Some product
         \<and> productStates env (product_id product) = Some state
         \<and> hd (pathSegments (req_pathname req)) = ''tauri'' \<and> \<not> tauriUpdates product
       \<longrightarrow> fst (server env req)
             = \<lparr> status = 404,
                 resp_body = Json (JError ''This product does not use Tauri updates'') \<rparr>)"
  using assms(2)
proof
  assume tauri: "pathSegments (req_pathname req) = [''tauri'', target, arch, cv]"
  show ?thesis
    using server_tauri_route [OF tauri assms(1), of env] tauri
    by auto
next
  assume "\<exists>rest. pathSegments (req_pathname req) = ''version'' # cv # rest"
  then obtain rest where ver: "pathSegments (req_pathname req) = ''version'' # cv # rest"
    by blast
  show ?thesis
    using server_version_route [OF ver assms(1), of env] ver
    by auto
qed

theorem invalid_version_never_reaches_resolver_witness:
  "server test_env (test_request ''tauri.test'' ''/tauri/darwin/aarch64/not-a-version'')
     = (\<lparr> status = 400, resp_body = Json (JError ''Invalid version format'') \<rparr>, [])
   \<and> server test_env (test_request ''simple.test'' ''/version/bad'')
     = (\<lparr> status = 400, resp_body = Json (JError ''Invalid version format'') \<rparr>, [])"
proof -
  have inv: "\<not> isValidVersion ''not-a-version''" "\<not> isValidVersion ''bad''"
    by (simp_all add: version_eval)
  have segs:
    "pathSegments ''/tauri/darwin/aarch64/not-a-version''
       = [''tauri'', ''darwin'', ''aarch64'', ''not-a-version'']"
    "pathSegments ''/version/bad'' = [''version'', ''bad'']"
    by (simp_all add: pathSegments_def)
  have a: "fst (server test_env (test_request ''tauri.test'' ''/tauri/darwin/aarch64/not-a-version''))
             = \<lparr> status = 400, resp_body = Json (JError ''Invalid version format'') \<rparr>
           \<and> snd (server test_env (test_request ''tauri.test'' ''/tauri/darwin/aarch64/not-a-version'')) = []"
    using invalid_version_never_reaches_resolver
            [of "''not-a-version''"
                "test_request ''tauri.test'' ''/tauri/darwin/aarch64/not-a-version''"
                "''darwin''" "''aarch64''" test_env test_tauri test_tauri_state]
          inv segs test_tauri_resolved test_request_fields
    by simp
  have b: "fst (server test_env (test_request ''simple.test'' ''/version/bad''))
             = \<lparr> status = 400, resp_body = Json (JError ''Invalid version format'') \<rparr>
           \<and> snd (server test_env (test_request ''simple.test'' ''/version/bad'')) = []"
    using invalid_version_never_reaches_resolver
            [of "''bad''" "test_request ''simple.test'' ''/version/bad''"
                "''x''" "''y''" test_env test_simple test_simple_state]
          inv segs test_simple_resolved test_request_fields
    by simp
  show ?thesis
    using a b by (simp add: prod_eq_iff)
qed

text \<open>
  Claim C7, as stated, fails for the \<^verbatim>\<open>/tauri\<close> route of a product that does not use
  Tauri updates: the request of the test "rejects /tauri endpoint for non-Tauri
  products", with an invalid version in place of the valid one, is answered 404.
\<close>

theorem invalid_version_not_always_400_counterexample:
  "\<not> isValidVersion ''not-a-version''
   \<and> pathSegments (req_pathname
         (test_request ''simple.test'' ''/tauri/darwin/aarch64/not-a-version''))
       = [''tauri'', ''darwin'', ''aarch64'', ''not-a-version'']
   \<and> server test_env (test_request ''simple.test'' ''/tauri/darwin/aarch64/not-a-version'')
       = (\<lparr> status = 404,
            resp_body = Json (JError ''This product does not use Tauri updates'') \<rparr>, [])
   \<and> status (fst (server test_env
         (test_request ''simple.test'' ''/tauri/darwin/aarch64/not-a-version''))) \<noteq> 400"
proof -
  have inv: "\<not> isValidVersion ''not-a-version''"
    by (simp add: version_eval)
  have segs:
    "pathSegments ''/tauri/darwin/aarch64/not-a-version''
       = [''tauri'', ''darwin'', ''aarch64'', ''not-a-version'']"
    by (simp add: pathSegments_def)
  have srv: "server test_env (test_request ''simple.test'' ''/tauri/darwin/aarch64/not-a-version'')
       = (\<lparr> status = 404,
            resp_body = Json (JError ''This product does not use Tauri updates'') \<rparr>, [])"
    by (simp add: server_def Let_def test_request_fields segs test_simple_resolved
          segmentAt_def sendJson_def)
  show ?thesis
    using inv segs srv by (simp add: test_request_fields)
qed

section \<open>Properties of the release notes extraction\<close>

text \<open>
  Trimming removes white space and nothing else: the result is empty exactly when
  every element is white space, the string is the result between a leading and a
  trailing run of white space, and a non-empty result neither begins nor ends with
  white space.
\<close>

lemma trimWith_empty_iff: "trimWith ws s = [] \<longleftrightarrow> (\<forall>c\<in>set s. ws c)"
proof -
  have "trimWith ws s = [] \<longleftrightarrow> (\<forall>c\<in>set (dropWhile ws s). ws c)"
    by (simp add: trimWith_def dropWhile_eq_Nil_conv)
  also have "\<dots> \<longleftrightarrow> dropWhile ws s = []"
  proof
    assume a: "\<forall>c\<in>set (dropWhile ws s). ws c"
    show "dropWhile ws s = []"
    proof (rule ccontr)
      assume ne: "dropWhile ws s \<noteq> []"
      then have "\<not> ws (hd (dropWhile ws s))"
        by (rule hd_dropWhile)
      moreover have "hd (dropWhile ws s) \<in> set (dropWhile ws s)"
        using ne by (rule hd_in_set)
      ultimately show False
        using a by blast
    qed
  next
    assume e: "dropWhile ws s = []"
    show "\<forall>c\<in>set (dropWhile ws s). ws c"
      unfolding e by simp
  qed
  also have "\<dots> \<longleftrightarrow> (\<forall>c\<in>set s. ws c)"
    by (simp add: dropWhile_eq_Nil_conv)
  finally show ?thesis .
qed

lemma trimWith_split:
  "dropWhile ws s = trimWith ws s @ rev (takeWhile ws (rev (dropWhile ws s)))"
proof -
  let ?d = "dropWhile ws s"
  have "trimWith ws s @ rev (takeWhile ws (rev ?d))
          = rev (takeWhile ws (rev ?d) @ dropWhile ws (rev ?d))"
    by (simp only: trimWith_def rev_append)
  also have "\<dots> = rev (rev ?d)"
    by (simp only: takeWhile_dropWhile_id)
  also have "\<dots> = ?d"
    by (simp only: rev_rev_ident)
  finally show ?thesis
    by (rule sym)
qed

lemma trimWith_decompose:
  "\<exists>lead trail. s = lead @ trimWith ws s @ trail
     \<and> (\<forall>c\<in>set lead. ws c) \<and> (\<forall>c\<in>set trail. ws c)"
proof -
  let ?lead = "takeWhile ws s"
  let ?trail = "rev (takeWhile ws (rev (dropWhile ws s)))"
  have "s = ?lead @ dropWhile ws s"
    by simp
  also have "dropWhile ws s = trimWith ws s @ ?trail"
    by (rule trimWith_split)
  finally have "s = ?lead @ trimWith ws s @ ?trail" .
  moreover have "\<forall>c\<in>set ?lead. ws c"
    by (auto dest: set_takeWhileD)
  moreover have "\<forall>c\<in>set ?trail. ws c"
    by (auto dest: set_takeWhileD)
  ultimately show ?thesis
    by blast
qed

lemma trimWith_ends:
  assumes "trimWith ws s \<noteq> []"
  shows "\<not> ws (hd (trimWith ws s))" and "\<not> ws (last (trimWith ws s))"
proof -
  let ?d = "dropWhile ws s"
  let ?e = "dropWhile ws (rev ?d)"
  have t: "trimWith ws s = rev ?e"
    by (simp only: trimWith_def)
  with assms have e: "?e \<noteq> []"
    by (simp only: rev_is_Nil_conv not_False_eq_True)
  then have "\<not> ws (hd ?e)"
    by (rule hd_dropWhile)
  moreover have "last (rev ?e) = hd ?e"
    using e by (simp add: last_rev)
  ultimately show "\<not> ws (last (trimWith ws s))"
    unfolding t by simp
  have d: "?d \<noteq> []"
  proof
    assume "?d = []"
    then have "?e = []" by (simp only: rev.simps dropWhile.simps)
    with e show False by contradiction
  qed
  then have nd: "\<not> ws (hd ?d)"
    by (rule hd_dropWhile)
  have "hd ?d = hd (trimWith ws s @ rev (takeWhile ws (rev ?d)))"
    using trimWith_split [of ws s] by (rule arg_cong)
  also have "\<dots> = hd (trimWith ws s)"
    using assms by (rule hd_append2)
  finally show "\<not> ws (hd (trimWith ws s))"
    using nd by simp
qed

text \<open>
  \<^verbatim>\<open>indexOf\<close> finds the first occurrence: the needle starts at the index returned
  and at no smaller one, and \<open>None\<close> means that it starts nowhere.
\<close>

lemma indexOf_Some:
  "indexOf s n = Some i \<Longrightarrow>
     i \<le> length s \<and> startsWith (drop i s) n \<and> (\<forall>j<i. \<not> startsWith (drop j s) n)"
proof (induction s arbitrary: i)
  case Nil
  then show ?case by (simp add: startsWith_def split: if_splits)
next
  case (Cons x xs)
  show ?case
  proof (cases "startsWith (x # xs) n")
    case True
    with Cons.prems show ?thesis by simp
  next
    case False
    with Cons.prems obtain i' where i: "i = Suc i'" and idx: "indexOf xs n = Some i'"
      by auto
    from Cons.IH [OF idx] False i show ?thesis
      by (auto simp add: less_Suc_eq_0_disj)
  qed
qed

lemma indexOf_None:
  "indexOf s n = None \<Longrightarrow> j \<le> length s \<Longrightarrow> \<not> startsWith (drop j s) n"
proof (induction s arbitrary: j)
  case Nil
  then show ?case by (simp add: startsWith_def split: if_splits)
next
  case (Cons x xs)
  then show ?case
    by (cases j) (auto split: if_splits)
qed

lemma indexOf_first_occurrence:
  assumes "\<forall>j<length pre. \<not> startsWith (drop j (pre @ n @ post)) n"
  shows "indexOf (pre @ n @ post) n = Some (length pre)"
proof -
  let ?s = "pre @ n @ post"
  have occ: "startsWith (drop (length pre) ?s) n"
    by (simp add: startsWith_def)
  show ?thesis
  proof (cases "indexOf ?s n")
    case None
    from indexOf_None [OF None, of "length pre"] occ show ?thesis by simp
  next
    case (Some i)
    from indexOf_Some [OF Some] have first: "\<forall>j<i. \<not> startsWith (drop j ?s) n"
      and here: "startsWith (drop i ?s) n" by simp_all
    have "\<not> i < length pre" using assms here by blast
    moreover have "\<not> length pre < i" using first occ by blast
    ultimately show ?thesis using Some by simp
  qed
qed

lemma stripDownloadSection_cut:
  assumes "\<forall>j<length pre. \<not> startsWith (drop j (pre @ ascii ''## Download'' @ post))
                             (ascii ''## Download'')"
  shows "stripDownloadSection (pre @ ascii ''## Download'' @ post) = trim pre"
  using indexOf_first_occurrence [OF assms]
  by (simp add: stripDownloadSection_def)

lemma stripDownloadSection_no_heading:
  assumes "\<forall>j\<le>length b. \<not> startsWith (drop j b) (ascii ''## Download'')"
  shows "stripDownloadSection b = trim b"
proof (cases "indexOf b (ascii ''## Download'')")
  case None
  then show ?thesis by (simp add: stripDownloadSection_def)
next
  case (Some i)
  from indexOf_Some [OF Some] assms show ?thesis by blast
qed

lemma extractVersionNotes_filter_map:
  "extractVersionNotes releases pfx =
     map (\<lambda>r. \<lparr> version = drop (length pfx) (tag_name r), notes = releaseNotes r \<rparr>)
       (filter (\<lambda>r. releaseNotes r \<noteq> []) releases)"
  by (simp add: extractVersionNotes_def filter_map comp_def)

text \<open>
  Claim C9. \<^verbatim>\<open>extractVersionNotes\<close> returns, in order, one note for each release
  whose body is non-empty after everything from the first \<^verbatim>\<open>"## Download"\<close> onward
  is removed and the rest is trimmed. The version of the note is the tag name without
  its first \<open>length pfx\<close> code units, which is the tag name without the prefix for
  every tag that starts with it. A release whose body is absent, empty, or empty after
  stripping contributes no note. Trimming is that of JavaScript: it yields the empty
  string exactly on white space, takes away only leading and trailing white space and
  leaves none at either end.
\<close>

theorem extractVersionNotes_keeps_nonempty_stripped_bodies:
  "extractVersionNotes releases pfx =
     map (\<lambda>r. \<lparr> version = drop (length pfx) (tag_name r), notes = releaseNotes r \<rparr>)
       (filter (\<lambda>r. releaseNotes r \<noteq> []) releases)
   \<and> (\<forall>(r::GitHubRelease) v. tag_name r = pfx @ v \<longrightarrow> drop (length pfx) (tag_name r) = v)
   \<and> (\<forall>r. body r = None \<or> body r = Some [] \<longrightarrow> releaseNotes r = [])
   \<and> (\<forall>r pre post.
         body r = Some (pre @ ascii ''## Download'' @ post)
         \<and> (\<forall>j<length pre. \<not> startsWith (drop j (pre @ ascii ''## Download'' @ post))
                                (ascii ''## Download''))
         \<longrightarrow> releaseNotes r = trim pre)
   \<and> (\<forall>r b.
         body r = Some b \<and> (\<forall>j\<le>length b. \<not> startsWith (drop j b) (ascii ''## Download''))
         \<longrightarrow> releaseNotes r = trim b)
   \<and> (\<forall>s. trim s = [] \<longleftrightarrow> (\<forall>c\<in>set s. isWhiteSpace c))
   \<and> (\<forall>s. \<exists>lead trail. s = lead @ trim s @ trail
              \<and> (\<forall>c\<in>set lead. isWhiteSpace c) \<and> (\<forall>c\<in>set trail. isWhiteSpace c))
   \<and> (\<forall>s. trim s \<noteq> [] \<longrightarrow> \<not> isWhiteSpace (hd (trim s)) \<and> \<not> isWhiteSpace (last (trim s)))"
proof (intro conjI allI impI)
  show "extractVersionNotes releases pfx =
     map (\<lambda>r. \<lparr> version = drop (length pfx) (tag_name r), notes = releaseNotes r \<rparr>)
       (filter (\<lambda>r. releaseNotes r \<noteq> []) releases)"
    by (rule extractVersionNotes_filter_map)
next
  fix r :: GitHubRelease and v
  assume "tag_name r = pfx @ v"
  then show "drop (length pfx) (tag_name r) = v" by simp
next
  fix r :: GitHubRelease
  assume "body r = None \<or> body r = Some []"
  then show "releaseNotes r = []" by (auto simp add: releaseNotes_def)
next
  fix r :: GitHubRelease and pre post
  assume a: "body r = Some (pre @ ascii ''## Download'' @ post)
         \<and> (\<forall>j<length pre. \<not> startsWith (drop j (pre @ ascii ''## Download'' @ post))
                                (ascii ''## Download''))"
  then have "stripDownloadSection (pre @ ascii ''## Download'' @ post) = trim pre"
    by (intro stripDownloadSection_cut) simp
  moreover have "ascii ''## Download'' \<noteq> []"
    by (simp add: ascii_def)
  ultimately show "releaseNotes r = trim pre"
    using a by (simp add: releaseNotes_def)
next
  fix r :: GitHubRelease and b
  assume a: "body r = Some b \<and> (\<forall>j\<le>length b. \<not> startsWith (drop j b) (ascii ''## Download''))"
  then have "stripDownloadSection b = trim b"
    by (intro stripDownloadSection_no_heading) simp
  moreover have "trim [] = []" by (simp add: trim_def trimWith_def)
  ultimately show "releaseNotes r = trim b"
    using a by (simp add: releaseNotes_def)
next
  fix s
  show "trim s = [] \<longleftrightarrow> (\<forall>c\<in>set s. isWhiteSpace c)"
    unfolding trim_def by (rule trimWith_empty_iff)
next
  fix s
  show "\<exists>lead trail. s = lead @ trim s @ trail
          \<and> (\<forall>c\<in>set lead. isWhiteSpace c) \<and> (\<forall>c\<in>set trail. isWhiteSpace c)"
    unfolding trim_def by (rule trimWith_decompose)
next
  fix s
  assume "trim s \<noteq> []"
  then show "\<not> isWhiteSpace (hd (trim s))" and "\<not> isWhiteSpace (last (trim s))"
    unfolding trim_def by (rule trimWith_ends)+
qed

theorem extractVersionNotes_keeps_nonempty_stripped_bodies_witness:
  "extractVersionNotes sample_releases (ascii ''v'') =
     [\<lparr> version = ascii ''0.1.21'',
        notes = ascii ''- Remember window position across restarts'' \<rparr>,
      \<lparr> version = ascii ''0.1.18'', notes = ascii ''- Add profile system'' \<rparr>,
      \<lparr> version = ascii ''0.1.17'', notes = ascii ''- First release'' \<rparr>]"
  using extractVersionNotes_keeps_nonempty_stripped_bodies [of sample_releases "ascii ''v''"]
  by (simp add: sample_releases_def releaseNotes_def stripDownloadSection_def startsWith_def
        trim_def trimWith_def isWhiteSpace_def ascii_def)

section \<open>Properties of the cache\<close>

text \<open>
  Claim C4. When a refresh takes place and the producer fails, \<^verbatim>\<open>get()\<close> returns the
  value of the previous entry if there is one and \<^verbatim>\<open>null\<close> if there is none; it
  returns and does not throw, the failure is appended to the error log, and the entry
  is left as it was.
\<close>

theorem get_stale_on_error:
  assumes "\<not> isFresh c now" and "producer (producer_calls c) = Rejects err"
  shows "(\<forall>e. entry c = Some e \<longrightarrow> fst (get producer now c) = Returns (Some (entry_value e)))
    \<and> (entry c = None \<longrightarrow> fst (get producer now c) = Returns None)
    \<and> (\<forall>msg. fst (get producer now c) \<noteq> Throws msg)
    \<and> console_errors (snd (get producer now c)) = console_errors c @ [err]
    \<and> entry (snd (get producer now c)) = entry c"
  using assms by (simp add: get_def)

theorem get_stale_on_error_witness:
  "fst (get failing_second 0 (newCache 50)) = Returns (Some 1)
   \<and> fst (get failing_second 60 (snd (get failing_second 0 (newCache 50)))) = Returns (Some 1)
   \<and> console_errors (snd (get failing_second 60 (snd (get failing_second 0 (newCache 50))))) = [''fail'']
   \<and> fst (get always_failing 0 (newCache 1000)) = Returns None"
proof -
  have first: "get failing_second 0 (newCache 50)
                 = (Returns (Some 1),
                    \<lparr> entry = Some \<lparr> entry_value = 1, fetchedAt = 0 \<rparr>, ttlMs = 50,
                      persisted = Some 1, console_errors = [], producer_calls = 1 \<rparr>)"
    by (simp add: get_def newCache_def isFresh_def failing_second_def)
  have expired: "\<not> isFresh (snd (get failing_second 0 (newCache 50))) 60"
    by (simp add: first isFresh_def)
  have fails: "failing_second (producer_calls (snd (get failing_second 0 (newCache 50)))) = Rejects ''fail''"
    by (simp add: first failing_second_def)
  have cold: "\<not> isFresh (newCache 1000 :: nat Cache) 0"
    by (simp add: isFresh_def newCache_def)
  have fails0: "always_failing (producer_calls (newCache 1000 :: nat Cache)) = Rejects ''fail''"
    by (simp add: always_failing_def)
  show ?thesis
    using get_stale_on_error [where producer = failing_second, OF expired fails]
          get_stale_on_error [where producer = always_failing, OF cold fails0] first
    by (simp add: newCache_def)
qed

section \<open>Properties of the version comparison\<close>

subsection \<open>\<^verbatim>\<open>compare\<close> of the specification\<close>



















end
